theory Spec2Isabelle
  imports Main "HOL-Library.Char_ord" "HOL-Library.List_Lexorder" "HOL-Library.Product_Lexorder"
begin

section \<open>The airline reservation store and its operations\<close>

text \<open>
  A shallow embedding of \<^verbatim>\<open>src/database.py\<close> (class \<^verbatim>\<open>Database\<close>) over the tables that
  \<^verbatim>\<open>src/setup_database.py\<close> declares. The MySQL server is modelled as an in-memory store:
  one list of rows per table, in insertion order. The connection is taken to be open and
  the server reachable, so the only \<^verbatim>\<open>mysql.connector.Error\<close> a statement meets is one the
  table declarations cause (a duplicate key, a failing foreign key, a value out of range).
  Strings are compared by equality (the collation of the columns is not modelled), and the
  two timestamp columns that the server fills from its clock (\<^verbatim>\<open>created_at\<close>,
  \<^verbatim>\<open>booking_date\<close>) are left out.
\<close>

subsection \<open>Tables\<close>

datatype flight_status = Scheduled | Boarding | Departed | Arrived | Flight_cancelled | Delayed

datatype seat_class = Business | Economy

datatype reservation_status = Confirmed | Cancelled | Checked_in | Completed

datatype payment_status = Pending | Paid | Refunded

record airport =
  o_airport_id :: nat
  o_airport_code :: string
  o_airport_name :: string
  o_city :: string
  o_country :: string
  o_timezone :: "string option"

text \<open>Times are \<^verbatim>\<open>DATETIME\<close> values, counted in seconds, and dates are counted in days;
  prices are \<^verbatim>\<open>DECIMAL(10, 2)\<close> values, counted in hundredths.\<close>

record flight =
  f_flight_id :: nat
  f_flight_number :: string
  f_aircraft_id :: nat
  f_origin_airport_id :: nat
  f_destination_airport_id :: nat
  f_departure_time :: int
  f_arrival_time :: int
  f_base_price :: int
  f_status :: flight_status

record passenger =
  p_passenger_id :: nat
  p_first_name :: string
  p_last_name :: string
  p_email :: string
  p_phone :: "string option"
  p_date_of_birth :: "int option"
  p_passport_number :: "string option"
  p_nationality :: "string option"

record seat =
  s_seat_id :: nat
  s_aircraft_id :: nat
  s_seat_number :: string
  s_seat_class :: seat_class

record reservation =
  r_reservation_id :: nat
  r_passenger_id :: nat
  r_flight_id :: nat
  r_seat_id :: "nat option"
  r_booking_reference :: string
  r_ticket_price :: int
  r_status :: reservation_status
  r_payment_status :: payment_status

record db =
  Airports :: "airport list"
  Flights :: "flight list"
  Passengers :: "passenger list"
  Seats :: "seat list"
  Reservations :: "reservation list"

subsection \<open>Statements and the two executors\<close>

text \<open>\<^verbatim>\<open>mysql.connector.Error\<close>, with its \<^verbatim>\<open>errno\<close>: 1062 duplicate entry, 1452 foreign key
  constraint fails, 1264 out of range value, 1406 data too long.\<close>

datatype error = Error nat

text \<open>
  \<^verbatim>\<open>execute_query\<close> returns the rows, or the empty list when the statement raises.
  \<^verbatim>\<open>execute_update\<close> commits and returns \<^verbatim>\<open>cursor.lastrowid\<close>, or rolls back and returns
  \<^verbatim>\<open>None\<close> when the statement raises. A statement is a function of the store.
\<close>

definition execute_query :: "(db \<Rightarrow> error + 'row list) \<Rightarrow> db \<Rightarrow> 'row list" where
  "execute_query query d = (case query d of Inr results \<Rightarrow> results | Inl e \<Rightarrow> [])"

definition execute_update :: "(db \<Rightarrow> error + nat \<times> db) \<Rightarrow> db \<Rightarrow> nat option \<times> db" where
  "execute_update query d =
     (case query d of Inr (last_id, d') \<Rightarrow> (Some last_id, d') | Inl e \<Rightarrow> (None, d))"

text \<open>\<^verbatim>\<open>AUTO_INCREMENT\<close>: the next key is one more than the largest key of the table.\<close>

definition auto_increment :: "nat list \<Rightarrow> nat" where
  "auto_increment ids = Suc (fold max ids 0)"

subsection \<open>Booking references\<close>

text \<open>
  \<^verbatim>\<open>string.ascii_uppercase + string.digits\<close>, and \<^verbatim>\<open>random.choices(population, k=8)\<close>, which
  picks \<^verbatim>\<open>population[floor(random() * 36)]\<close> eight times. The generator's randomness is a
  sequence of draws \<open>rnd\<close> and a position in it; the draw \<open>rnd i\<close> stands for
  \<^verbatim>\<open>floor(random() * 36)\<close>, which lies below 36, and is reduced modulo 36.
\<close>

definition alphabet :: string where
  "alphabet = ''ABCDEFGHIJKLMNOPQRSTUVWXYZ0123456789''"

definition choices :: "(nat \<Rightarrow> nat) \<Rightarrow> nat \<Rightarrow> nat \<Rightarrow> string" where
  "choices rnd pos k = map (\<lambda>j. alphabet ! (rnd (pos + j) mod 36)) [0..<k]"

definition select_booking_reference :: "string \<Rightarrow> db \<Rightarrow> error + string list" where
  "select_booking_reference ref d =
     Inr [r_booking_reference r. r \<leftarrow> Reservations d, r_booking_reference r = ref]"

text \<open>The \<^verbatim>\<open>while True\<close> loop: the result is \<open>None\<close> when the loop never returns.\<close>

partial_function (option) generate_booking_reference ::
  "db \<Rightarrow> (nat \<Rightarrow> nat) \<Rightarrow> nat \<Rightarrow> (string \<times> nat) option" where
  "generate_booking_reference d rnd pos =
     (if execute_query (select_booking_reference (choices rnd pos 8)) d = []
      then Some (choices rnd pos 8, pos + 8)
      else generate_booking_reference d rnd (pos + 8))"

declare generate_booking_reference.simps [code]

subsection \<open>Passengers\<close>

definition select_passenger_id :: "string \<Rightarrow> db \<Rightarrow> error + nat list" where
  "select_passenger_id email d =
     Inr [p_passenger_id p. p \<leftarrow> Passengers d, p_email p = email]"

text \<open>A nullable \<^verbatim>\<open>VARCHAR(n)\<close> value fits when it is \<^verbatim>\<open>NULL\<close> or at most \<open>n\<close> long (the
  server's default strict mode rejects a longer one).\<close>

definition fits :: "nat \<Rightarrow> string option \<Rightarrow> bool" where
  "fits n v = (case v of None \<Rightarrow> True | Some s \<Rightarrow> length s \<le> n)"

definition insert_passenger ::
  "string \<Rightarrow> string \<Rightarrow> string \<Rightarrow> string option \<Rightarrow> int option \<Rightarrow> string option \<Rightarrow>
   string option \<Rightarrow> db \<Rightarrow> error + nat \<times> db" where
  "insert_passenger first_name last_name email phone date_of_birth passport_number nationality d =
     (if \<not> (length first_name \<le> 50 \<and> length last_name \<le> 50 \<and> length email \<le> 100 \<and>
             fits 20 phone \<and> fits 20 passport_number \<and> fits 50 nationality)
      then Inl (Error 1406)
      else if email \<in> set (map p_email (Passengers d)) \<or>
              (passport_number \<noteq> None \<and>
               passport_number \<in> set (map p_passport_number (Passengers d)))
      then Inl (Error 1062)
      else let new_id = auto_increment (map p_passenger_id (Passengers d)) in
        Inr (new_id,
          d\<lparr>Passengers := Passengers d @
            [\<lparr>p_passenger_id = new_id, p_first_name = first_name, p_last_name = last_name,
              p_email = email, p_phone = phone, p_date_of_birth = date_of_birth,
              p_passport_number = passport_number, p_nationality = nationality\<rparr>]\<rparr>))"

definition create_passenger ::
  "db \<Rightarrow> string \<Rightarrow> string \<Rightarrow> string \<Rightarrow> string option \<Rightarrow> int option \<Rightarrow> string option \<Rightarrow>
   string option \<Rightarrow> nat option \<times> db" where
  "create_passenger d first_name last_name email phone date_of_birth passport_number nationality =
     (case execute_query (select_passenger_id email) d of
        passenger_id # _ \<Rightarrow> (Some passenger_id, d)
      | [] \<Rightarrow>
          execute_update
            (insert_passenger first_name last_name email phone date_of_birth passport_number
               nationality) d)"

subsection \<open>Seats\<close>

text \<open>An \<^verbatim>\<open>ENUM\<close> column sorts by the position of the value in its declaration; seat numbers
  sort as strings, character by character.\<close>

fun seat_class_index :: "seat_class \<Rightarrow> nat" where
  "seat_class_index Business = 1"
| "seat_class_index Economy = 2"

definition select_available_seats :: "nat \<Rightarrow> db \<Rightarrow> error + (nat \<times> string \<times> seat_class) list" where
  "select_available_seats flight_id d =
     Inr (map (\<lambda>s. (s_seat_id s, s_seat_number s, s_seat_class s))
       (sort_key (\<lambda>s. (seat_class_index (s_seat_class s), s_seat_number s))
         [s. s \<leftarrow> Seats d, f \<leftarrow> Flights d,
             s_aircraft_id s = f_aircraft_id f \<and> f_flight_id f = flight_id \<and>
             Some (s_seat_id s) \<notin> set
               [r_seat_id r. r \<leftarrow> Reservations d,
                  r_flight_id r = flight_id \<and> r_status r = Confirmed \<and> r_seat_id r \<noteq> None]]))"

definition get_available_seats :: "db \<Rightarrow> nat \<Rightarrow> (nat \<times> string \<times> seat_class) list" where
  "get_available_seats d flight_id = execute_query (select_available_seats flight_id) d"

subsection \<open>Reservations\<close>

definition insert_reservation ::
  "nat \<Rightarrow> nat \<Rightarrow> nat option \<Rightarrow> string \<Rightarrow> int \<Rightarrow> db \<Rightarrow> error + nat \<times> db" where
  "insert_reservation passenger_id flight_id seat_id booking_ref ticket_price d =
     (if \<not> (\<bar>ticket_price\<bar> \<le> 9999999999)
      then Inl (Error 1264)
      else if \<not> (length booking_ref \<le> 20)
      then Inl (Error 1406)
      else if booking_ref \<in> set (map r_booking_reference (Reservations d))
      then Inl (Error 1062)
      else if passenger_id \<notin> set (map p_passenger_id (Passengers d)) \<or>
              flight_id \<notin> set (map f_flight_id (Flights d)) \<or>
              (case seat_id of None \<Rightarrow> False
               | Some s \<Rightarrow> s \<notin> set (map s_seat_id (Seats d)))
      then Inl (Error 1452)
      else let new_id = auto_increment (map r_reservation_id (Reservations d)) in
        Inr (new_id,
          d\<lparr>Reservations := Reservations d @
            [\<lparr>r_reservation_id = new_id, r_passenger_id = passenger_id,
              r_flight_id = flight_id, r_seat_id = seat_id,
              r_booking_reference = booking_ref, r_ticket_price = ticket_price,
              r_status = Confirmed, r_payment_status = Paid\<rparr>]\<rparr>))"

text \<open>
  \<^verbatim>\<open>create_reservation\<close> returns the reference, or \<^verbatim>\<open>None\<close> when the insert failed; the whole
  result is \<open>None\<close> when the reference generator never returns. The third component is the
  position reached in the sequence of draws.
\<close>

definition create_reservation ::
  "db \<Rightarrow> (nat \<Rightarrow> nat) \<Rightarrow> nat \<Rightarrow> nat \<Rightarrow> nat \<Rightarrow> nat option \<Rightarrow> int \<Rightarrow>
   (string option \<times> db \<times> nat) option" where
  "create_reservation d rnd pos passenger_id flight_id seat_id ticket_price =
     (case generate_booking_reference d rnd pos of
        None \<Rightarrow> None
      | Some (booking_ref, pos') \<Rightarrow>
          (case execute_update
                  (insert_reservation passenger_id flight_id seat_id booking_ref ticket_price) d of
             (reservation_id, d') \<Rightarrow>
               Some (if reservation_id \<noteq> None \<and> reservation_id \<noteq> Some 0
                     then Some booking_ref else None, d', pos')))"

text \<open>
  A row of the two joins over \<^verbatim>\<open>Reservations\<close>: the reservation, its passenger, its flight,
  the origin and destination airports of the flight, and the seat of the \<^verbatim>\<open>LEFT JOIN\<close>
  (\<open>None\<close> when no seat matches). The selected columns are read from these.
\<close>

type_synonym joined_row = "reservation \<times> passenger \<times> flight \<times> airport \<times> airport \<times> seat option"

definition left_join_seats :: "db \<Rightarrow> reservation \<Rightarrow> seat option list" where
  "left_join_seats d r =
     (case [s. s \<leftarrow> Seats d, r_seat_id r = Some (s_seat_id s)] of
        [] \<Rightarrow> [None]
      | ss \<Rightarrow> map Some ss)"

definition select_reservation :: "string \<Rightarrow> db \<Rightarrow> error + joined_row list" where
  "select_reservation booking_reference d =
     Inr [(r, p, f, orig, dest, s).
            r \<leftarrow> Reservations d,
            p \<leftarrow> Passengers d, r_passenger_id r = p_passenger_id p,
            f \<leftarrow> Flights d, r_flight_id r = f_flight_id f,
            orig \<leftarrow> Airports d, f_origin_airport_id f = o_airport_id orig,
            dest \<leftarrow> Airports d, f_destination_airport_id f = o_airport_id dest,
            s \<leftarrow> left_join_seats d r,
            r_booking_reference r = booking_reference]"

definition get_reservation_by_reference :: "db \<Rightarrow> string \<Rightarrow> joined_row option" where
  "get_reservation_by_reference d booking_reference =
     (case execute_query (select_reservation booking_reference) d of
        [] \<Rightarrow> None
      | row # _ \<Rightarrow> Some row)"

definition update_cancel :: "string \<Rightarrow> db \<Rightarrow> error + nat \<times> db" where
  "update_cancel booking_reference d =
     Inr (0,
       d\<lparr>Reservations :=
           map (\<lambda>r. if r_booking_reference r = booking_reference
                     then r\<lparr>r_status := Cancelled, r_payment_status := Refunded\<rparr> else r)
             (Reservations d)\<rparr>)"

text \<open>
  \<^verbatim>\<open>cancel_reservation\<close> returns \<^verbatim>\<open>None\<close> on every path, so an exception is the only way it
  could report a failure to its caller: its outcome is \<open>Inr\<close> of the store it leaves when
  the call returns, and \<open>Inl\<close> of the exception when one escapes. The method raises nothing
  and \<^verbatim>\<open>execute_update\<close> catches the connector's error.
\<close>

definition cancel_reservation :: "db \<Rightarrow> string \<Rightarrow> error + db" where
  "cancel_reservation d booking_reference =
     Inr (snd (execute_update (update_cancel booking_reference) d))"

subsection \<open>Views of the store\<close>

definition booking_references :: "db \<Rightarrow> string list" where
  "booking_references d = map r_booking_reference (Reservations d)"

text \<open>The seats of the aircraft of a flight: the join of \<^verbatim>\<open>get_available_seats\<close> without its
  \<^verbatim>\<open>NOT IN\<close> condition.\<close>

definition seat_catalog :: "db \<Rightarrow> nat \<Rightarrow> seat list" where
  "seat_catalog d flight_id =
     [s. s \<leftarrow> Seats d, f \<leftarrow> Flights d,
         s_aircraft_id s = f_aircraft_id f \<and> f_flight_id f = flight_id]"

text \<open>The reservations of a seat on a flight that \<^verbatim>\<open>get_available_seats\<close> counts: the
  confirmed ones.\<close>

definition confirmed_reservations :: "db \<Rightarrow> nat \<Rightarrow> nat \<Rightarrow> reservation list" where
  "confirmed_reservations d flight_id seat_id =
     [r \<leftarrow> Reservations d.
        r_flight_id r = flight_id \<and> r_seat_id r = Some seat_id \<and> r_status r = Confirmed]"

text \<open>The live reservations of a seat on a flight in the words of the specification: those
  whose status is confirmed, checked in or completed; a seat is held when it has one.\<close>

definition live_reservations :: "db \<Rightarrow> nat \<Rightarrow> nat \<Rightarrow> reservation list" where
  "live_reservations d flight_id seat_id =
     [r \<leftarrow> Reservations d.
        r_flight_id r = flight_id \<and> r_seat_id r = Some seat_id \<and>
        r_status r \<in> {Confirmed, Checked_in, Completed}]"

definition spec_held :: "db \<Rightarrow> nat \<Rightarrow> nat \<Rightarrow> bool" where
  "spec_held d flight_id seat_id \<longleftrightarrow> live_reservations d flight_id seat_id \<noteq> []"

text \<open>The characters of a reference in the words of the specification.\<close>

definition upper_or_digit :: "char \<Rightarrow> bool" where
  "upper_or_digit c \<longleftrightarrow>
     (CHR ''A'' \<le> c \<and> c \<le> CHR ''Z'') \<or> (CHR ''0'' \<le> c \<and> c \<le> CHR ''9'')"

text \<open>The two foreign keys of \<^verbatim>\<open>Flights\<close> into \<^verbatim>\<open>Airports\<close>, which the server keeps.\<close>

definition flights_reference_airports :: "db \<Rightarrow> bool" where
  "flights_reference_airports d \<longleftrightarrow>
     (\<forall>f \<in> set (Flights d).
        f_origin_airport_id f \<in> set (map o_airport_id (Airports d)) \<and>
        f_destination_airport_id f \<in> set (map o_airport_id (Airports d)))"

subsection \<open>Example stores\<close>

text \<open>
  A small store in the shape of the sample data of \<^verbatim>\<open>insert_sample_data\<close>: two airports, a
  scheduled flight on aircraft 1 and a departed flight on aircraft 2, one passenger, the
  seats \<^verbatim>\<open>1A\<close> (business) and \<^verbatim>\<open>1B\<close> (economy) of aircraft 1, the seat \<^verbatim>\<open>1A\<close> of aircraft
  2, and no reservation.
\<close>

definition demo_airports :: "airport list" where
  "demo_airports =
     [\<lparr>o_airport_id = 1, o_airport_code = ''JFK'',
       o_airport_name = ''John F. Kennedy International Airport'',
       o_city = ''New York'', o_country = ''USA'', o_timezone = Some ''America/New_York''\<rparr>,
      \<lparr>o_airport_id = 2, o_airport_code = ''LAX'',
       o_airport_name = ''Los Angeles International Airport'',
       o_city = ''Los Angeles'', o_country = ''USA'',
       o_timezone = Some ''America/Los_Angeles''\<rparr>]"

definition demo_flights :: "flight list" where
  "demo_flights =
     [\<lparr>f_flight_id = 1, f_flight_number = ''AA101'', f_aircraft_id = 1,
       f_origin_airport_id = 1, f_destination_airport_id = 2, f_departure_time = 1000,
       f_arrival_time = 2000, f_base_price = 35000, f_status = Scheduled\<rparr>,
      \<lparr>f_flight_id = 2, f_flight_number = ''AA102'', f_aircraft_id = 2,
       f_origin_airport_id = 2, f_destination_airport_id = 1, f_departure_time = 3000,
       f_arrival_time = 4000, f_base_price = 38000, f_status = Departed\<rparr>]"

definition demo_passengers :: "passenger list" where
  "demo_passengers =
     [\<lparr>p_passenger_id = 1, p_first_name = ''John'', p_last_name = ''Doe'',
       p_email = ''john.doe@email.com'', p_phone = Some ''+1-555-0101'',
       p_date_of_birth = Some 5613, p_passport_number = Some ''P12345678'',
       p_nationality = Some ''USA''\<rparr>]"

definition demo_seats :: "seat list" where
  "demo_seats =
     [\<lparr>s_seat_id = 1, s_aircraft_id = 1, s_seat_number = ''1A'', s_seat_class = Business\<rparr>,
      \<lparr>s_seat_id = 2, s_aircraft_id = 1, s_seat_number = ''1B'', s_seat_class = Economy\<rparr>,
      \<lparr>s_seat_id = 3, s_aircraft_id = 2, s_seat_number = ''1A'', s_seat_class = Business\<rparr>]"

definition demo_db :: db where
  "demo_db =
     \<lparr>Airports = demo_airports, Flights = demo_flights, Passengers = demo_passengers,
      Seats = demo_seats, Reservations = []\<rparr>"

text \<open>Two sequences of draws: one that counts up, so that successive candidates are
  \<^verbatim>\<open>ABCDEFGH\<close>, \<^verbatim>\<open>IJKLMNOP\<close>, ..., and one that repeats its first eight draws for ever, so
  that every candidate is \<^verbatim>\<open>ABCDEFGH\<close>.\<close>

definition count_up :: "nat \<Rightarrow> nat" where
  "count_up i = i"

definition stuck_draws :: "nat \<Rightarrow> nat" where
  "stuck_draws i = i mod 8"

text \<open>The store after passenger 1 has booked seat \<^verbatim>\<open>1B\<close> on flight 1, the store after that
  booking has been cancelled, and the store after the same seat has been booked on the same
  flight once more instead.\<close>

definition booked_db :: db where
  "booked_db = demo_db\<lparr>Reservations :=
     [\<lparr>r_reservation_id = 1, r_passenger_id = 1, r_flight_id = 1, r_seat_id = Some 2,
       r_booking_reference = ''ABCDEFGH'', r_ticket_price = 35000, r_status = Confirmed,
       r_payment_status = Paid\<rparr>]\<rparr>"

definition booked_cancelled_db :: db where
  "booked_cancelled_db = demo_db\<lparr>Reservations :=
     [\<lparr>r_reservation_id = 1, r_passenger_id = 1, r_flight_id = 1, r_seat_id = Some 2,
       r_booking_reference = ''ABCDEFGH'', r_ticket_price = 35000, r_status = Cancelled,
       r_payment_status = Refunded\<rparr>]\<rparr>"

definition double_booked_db :: db where
  "double_booked_db = demo_db\<lparr>Reservations :=
     [\<lparr>r_reservation_id = 1, r_passenger_id = 1, r_flight_id = 1, r_seat_id = Some 2,
       r_booking_reference = ''ABCDEFGH'', r_ticket_price = 35000, r_status = Confirmed,
       r_payment_status = Paid\<rparr>,
      \<lparr>r_reservation_id = 2, r_passenger_id = 1, r_flight_id = 1, r_seat_id = Some 2,
       r_booking_reference = ''IJKLMNOP'', r_ticket_price = 35000, r_status = Confirmed,
       r_payment_status = Paid\<rparr>]\<rparr>"

text \<open>The store after seat \<^verbatim>\<open>1A\<close> of aircraft 2 has been booked on the departed flight 2.\<close>

definition departed_booked_db :: db where
  "departed_booked_db = demo_db\<lparr>Reservations :=
     [\<lparr>r_reservation_id = 1, r_passenger_id = 1, r_flight_id = 2, r_seat_id = Some 3,
       r_booking_reference = ''ABCDEFGH'', r_ticket_price = 38000, r_status = Confirmed,
       r_payment_status = Paid\<rparr>]\<rparr>"

text \<open>Stores with one reservation each: a checked-in one; a completed one whose payment is
  pending, and its state after a cancellation; and one in the shape of the sample
  reservation \<^verbatim>\<open>BK2025002\<close>, whose seat belongs to another aircraft than its flight's, with its
  state after a cancellation.\<close>

definition checked_in_db :: db where
  "checked_in_db = demo_db\<lparr>Reservations :=
     [\<lparr>r_reservation_id = 1, r_passenger_id = 1, r_flight_id = 1, r_seat_id = Some 2,
       r_booking_reference = ''BK2025001'', r_ticket_price = 35000, r_status = Checked_in,
       r_payment_status = Paid\<rparr>]\<rparr>"

definition completed_db :: db where
  "completed_db = demo_db\<lparr>Reservations :=
     [\<lparr>r_reservation_id = 1, r_passenger_id = 1, r_flight_id = 1, r_seat_id = Some 2,
       r_booking_reference = ''BK2025001'', r_ticket_price = 35000, r_status = Completed,
       r_payment_status = Pending\<rparr>]\<rparr>"

definition completed_cancelled_db :: db where
  "completed_cancelled_db = demo_db\<lparr>Reservations :=
     [\<lparr>r_reservation_id = 1, r_passenger_id = 1, r_flight_id = 1, r_seat_id = Some 2,
       r_booking_reference = ''BK2025001'', r_ticket_price = 35000, r_status = Cancelled,
       r_payment_status = Refunded\<rparr>]\<rparr>"

definition mismatched_db :: db where
  "mismatched_db = demo_db\<lparr>Reservations :=
     [\<lparr>r_reservation_id = 1, r_passenger_id = 1, r_flight_id = 2, r_seat_id = Some 2,
       r_booking_reference = ''BK2025002'', r_ticket_price = 38000, r_status = Confirmed,
       r_payment_status = Paid\<rparr>]\<rparr>"

definition mismatched_cancelled_db :: db where
  "mismatched_cancelled_db = demo_db\<lparr>Reservations :=
     [\<lparr>r_reservation_id = 1, r_passenger_id = 1, r_flight_id = 2, r_seat_id = Some 2,
       r_booking_reference = ''BK2025002'', r_ticket_price = 38000, r_status = Cancelled,
       r_payment_status = Refunded\<rparr>]\<rparr>"

section \<open>Properties\<close>

subsection \<open>Passenger deduplication\<close>

lemma select_passenger_id_find:
  "find (\<lambda>p. p_email p = email) ps = Some p \<Longrightarrow>
     \<exists>rest. [p_passenger_id p. p \<leftarrow> ps, p_email p = email] = p_passenger_id p # rest"
  by (induction ps) (auto split: if_splits)

text \<open>
  Claim C10. When the email given to \<^verbatim>\<open>create_passenger\<close> is already the email of a row of
  \<^verbatim>\<open>Passengers\<close>, the call returns the identifier of the first such row and leaves the store
  as it was: no row is inserted, and the other arguments (names, phone, date of birth,
  passport, nationality) change nothing.
\<close>

theorem create_passenger_existing_email:
  assumes "email \<in> set (map p_email (Passengers d))"
  shows "\<exists>p. find (\<lambda>p. p_email p = email) (Passengers d) = Some p \<and>
           create_passenger d first_name last_name email phone date_of_birth passport_number
             nationality = (Some (p_passenger_id p), d)"
proof -
  from assms obtain p where p: "find (\<lambda>p. p_email p = email) (Passengers d) = Some p"
    by (cases "find (\<lambda>p. p_email p = email) (Passengers d)") (auto simp: find_None_iff)
  from select_passenger_id_find [OF p] obtain rest where
    "execute_query (select_passenger_id email) d = p_passenger_id p # rest"
    unfolding execute_query_def select_passenger_id_def by auto
  then have "create_passenger d first_name last_name email phone date_of_birth passport_number
      nationality = (Some (p_passenger_id p), d)"
    by (simp add: create_passenger_def)
  with p show ?thesis by blast
qed

theorem create_passenger_existing_email_witness:
  "''john.doe@email.com'' \<in> set (map p_email (Passengers demo_db)) \<and>
   create_passenger demo_db ''Johnny'' ''Doe-Smith'' ''john.doe@email.com'' (Some ''+44-20-0000'')
     None (Some ''P99999999'') (Some ''UK'') = (Some 1, demo_db)"
proof -
  have h: "''john.doe@email.com'' \<in> set (map p_email (Passengers demo_db))"
    by (simp add: demo_db_def demo_passengers_def)
  from create_passenger_existing_email [OF h, of "''Johnny''" "''Doe-Smith''"
      "Some ''+44-20-0000''" None "Some ''P99999999''" "Some ''UK''"]
  show ?thesis using h by (auto simp: demo_db_def demo_passengers_def)
qed

subsection \<open>The reference generator\<close>

lemma select_booking_reference_empty:
  "execute_query (select_booking_reference ref) d = [] \<longleftrightarrow> ref \<notin> set (booking_references d)"
  by (auto simp: execute_query_def select_booking_reference_def booking_references_def
      split: if_splits)

lemma generate_first_fresh:
  "\<lbrakk>\<forall>j<k. choices rnd (pos + 8 * j) 8 \<in> set (booking_references d);
    choices rnd (pos + 8 * k) 8 \<notin> set (booking_references d)\<rbrakk>
   \<Longrightarrow> generate_booking_reference d rnd pos =
         Some (choices rnd (pos + 8 * k) 8, pos + 8 * Suc k)"
proof (induction k arbitrary: pos)
  case 0
  then show ?case
    by (subst generate_booking_reference.simps) (simp add: select_booking_reference_empty)
next
  case (Suc k)
  from Suc.prems(1) have taken: "choices rnd pos 8 \<in> set (booking_references d)"
    by (metis add.right_neutral mult_0_right zero_less_Suc)
  have "\<forall>j<k. choices rnd (pos + 8 + 8 * j) 8 \<in> set (booking_references d)"
  proof (intro allI impI)
    fix j assume "j < k"
    then have "Suc j < Suc k" by simp
    with Suc.prems(1) have "choices rnd (pos + 8 * Suc j) 8 \<in> set (booking_references d)"
      by blast
    then show "choices rnd (pos + 8 + 8 * j) 8 \<in> set (booking_references d)"
      by (simp add: add.assoc)
  qed
  moreover from Suc.prems(2)
  have "choices rnd (pos + 8 + 8 * k) 8 \<notin> set (booking_references d)"
    by (simp add: add.assoc)
  ultimately have "generate_booking_reference d rnd (pos + 8) =
      Some (choices rnd (pos + 8 + 8 * k) 8, pos + 8 + 8 * Suc k)"
    by (rule Suc.IH)
  with taken show ?case
    by (subst generate_booking_reference.simps)
      (simp add: select_booking_reference_empty add.assoc)
qed

lemma generate_Some_fresh:
  assumes "generate_booking_reference d rnd pos = Some y"
  shows "\<exists>k. choices rnd (pos + 8 * k) 8 \<notin> set (booking_references d)"
proof (rule generate_booking_reference.raw_induct
    [where P = "\<lambda>d rnd pos y. \<exists>k. choices rnd (pos + 8 * k) 8 \<notin> set (booking_references d)",
      OF _ assms])
  fix gen :: "db \<Rightarrow> (nat \<Rightarrow> nat) \<Rightarrow> nat \<Rightarrow> (string \<times> nat) option"
  fix d rnd pos y
  assume IH: "\<And>d rnd pos y. gen d rnd pos = Some y \<Longrightarrow>
      \<exists>k. choices rnd (pos + 8 * k) 8 \<notin> set (booking_references d)"
  assume body: "(if execute_query (select_booking_reference (choices rnd pos 8)) d = []
      then Some (choices rnd pos 8, pos + 8) else gen d rnd (pos + 8)) = Some y"
  show "\<exists>k. choices rnd (pos + 8 * k) 8 \<notin> set (booking_references d)"
  proof (cases "choices rnd pos 8 \<in> set (booking_references d)")
    case False
    then have "choices rnd (pos + 8 * 0) 8 \<notin> set (booking_references d)" by simp
    then show ?thesis by blast
  next
    case True
    with body have "gen d rnd (pos + 8) = Some y"
      by (simp add: select_booking_reference_empty)
    from IH [OF this] obtain k where
      "choices rnd (pos + 8 + 8 * k) 8 \<notin> set (booking_references d)" by blast
    then have "choices rnd (pos + 8 * Suc k) 8 \<notin> set (booking_references d)"
      by (simp add: add.assoc)
    then show ?thesis by blast
  qed
qed

lemma generate_Some_least:
  assumes "generate_booking_reference d rnd pos = Some y"
  shows "\<exists>k. (\<forall>j<k. choices rnd (pos + 8 * j) 8 \<in> set (booking_references d)) \<and>
              choices rnd (pos + 8 * k) 8 \<notin> set (booking_references d) \<and>
              y = (choices rnd (pos + 8 * k) 8, pos + 8 * Suc k)"
proof -
  let ?fresh = "\<lambda>k. choices rnd (pos + 8 * k) 8 \<notin> set (booking_references d)"
  from generate_Some_fresh [OF assms] have ex: "\<exists>k. ?fresh k" .
  define k where "k = (LEAST k. ?fresh k)"
  have fresh: "?fresh k" unfolding k_def using ex by (rule LeastI_ex)
  have taken: "\<forall>j<k. choices rnd (pos + 8 * j) 8 \<in> set (booking_references d)"
    unfolding k_def using not_less_Least by blast
  from generate_first_fresh [OF taken fresh] assms
  have "y = (choices rnd (pos + 8 * k) 8, pos + 8 * Suc k)" by simp
  with taken fresh show ?thesis by blast
qed

lemma length_choices: "length (choices rnd pos k) = k"
  by (simp add: choices_def)

lemma set_choices: "set (choices rnd pos k) \<subseteq> set alphabet"
proof -
  have "length alphabet = 36" by (simp add: alphabet_def)
  then have "alphabet ! (n mod 36) \<in> set alphabet" for n
    by (metis mod_less_divisor nth_mem zero_less_numeral)
  then show ?thesis by (auto simp: choices_def)
qed


lemma upt_8: "[0..<8] = [0, 1, 2, 3, 4, 5, 6, 7::nat]"
  by code_simp

lemma choices_stuck_draws: "choices stuck_draws (8 * k) 8 = ''ABCDEFGH''"
  by (simp add: choices_def stuck_draws_def alphabet_def upt_8)


lemma choices_count_up:
  "choices count_up 0 8 = ''ABCDEFGH''" "choices count_up 8 8 = ''IJKLMNOP''"
  by (simp_all add: choices_def count_up_def alphabet_def upt_8)

text \<open>
  Claim C2 as stated fails: the loop of \<^verbatim>\<open>generate_booking_reference\<close> has no retry ceiling and
  no terminal error. On a store that holds the reference \<^verbatim>\<open>ABCDEFGH\<close>, with draws that produce
  that candidate every time, the call never returns.
\<close>

theorem generate_booking_reference_never_returns:
  "generate_booking_reference booked_db stuck_draws 0 = None"
proof (cases "generate_booking_reference booked_db stuck_draws 0")
  case (Some y)
  from generate_Some_fresh [OF this] show ?thesis
    by (simp add: choices_stuck_draws booking_references_def booked_db_def)
qed simp


text \<open>
  Claim C2, amended. \<^verbatim>\<open>generate_booking_reference\<close> retries without bound: it returns the
  first candidate that is absent from \<^verbatim>\<open>Reservations\<close>, after as many retries as there are
  colliding candidates before it, and it does not return when every candidate collides.
\<close>

theorem generate_booking_reference_unbounded:
  "((\<forall>j<k. choices rnd (pos + 8 * j) 8 \<in> set (booking_references d)) \<and>
    choices rnd (pos + 8 * k) 8 \<notin> set (booking_references d) \<longrightarrow>
      generate_booking_reference d rnd pos =
        Some (choices rnd (pos + 8 * k) 8, pos + 8 * Suc k)) \<and>
   ((\<forall>k. choices rnd (pos + 8 * k) 8 \<in> set (booking_references d)) \<longrightarrow>
      generate_booking_reference d rnd pos = None)"
proof (intro conjI impI)
  assume "(\<forall>j<k. choices rnd (pos + 8 * j) 8 \<in> set (booking_references d)) \<and>
    choices rnd (pos + 8 * k) 8 \<notin> set (booking_references d)"
  then show "generate_booking_reference d rnd pos =
      Some (choices rnd (pos + 8 * k) 8, pos + 8 * Suc k)"
    using generate_first_fresh by blast
next
  assume all: "\<forall>k. choices rnd (pos + 8 * k) 8 \<in> set (booking_references d)"
  show "generate_booking_reference d rnd pos = None"
  proof (cases "generate_booking_reference d rnd pos")
    case (Some y)
    from generate_Some_fresh [OF this] all show ?thesis by blast
  qed simp
qed

theorem generate_booking_reference_unbounded_witness:
  "choices count_up 0 8 \<in> set (booking_references booked_db) \<and>
   choices count_up 8 8 \<notin> set (booking_references booked_db) \<and>
   generate_booking_reference booked_db count_up 0 = Some (''IJKLMNOP'', 16) \<and>
   (\<forall>k. choices stuck_draws (0 + 8 * k) 8 \<in> set (booking_references booked_db)) \<and>
   generate_booking_reference booked_db stuck_draws 0 = None"
proof -
  have c0: "choices count_up 0 8 = ''ABCDEFGH''" and c1: "choices count_up 8 8 = ''IJKLMNOP''"
    by (simp_all add: choices_def count_up_def alphabet_def upt_8)
  have refs: "booking_references booked_db = [''ABCDEFGH'']"
    by (simp add: booking_references_def booked_db_def)
  have taken: "\<forall>j<1. choices count_up (0 + 8 * j) 8 \<in> set (booking_references booked_db)"
    by (simp add: c0 refs)
  have fresh: "choices count_up (0 + 8 * 1) 8 \<notin> set (booking_references booked_db)"
    by (simp add: c1 refs)
  have stuck: "\<forall>k. choices stuck_draws (0 + 8 * k) 8 \<in> set (booking_references booked_db)"
    by (simp add: choices_stuck_draws refs)
  from generate_booking_reference_unbounded [of 1 count_up 0 booked_db] taken fresh
  have "generate_booking_reference booked_db count_up 0 = Some (''IJKLMNOP'', 16)"
    by (simp add: c1)
  moreover from generate_booking_reference_unbounded [of 0 stuck_draws 0 booked_db] stuck
  have "generate_booking_reference booked_db stuck_draws 0 = None"
    by blast
  ultimately show ?thesis using stuck by (simp add: c0 c1 refs)
qed


subsection \<open>Booking\<close>

lemma insert_reservation_Inr:
  "insert_reservation pid fid sid ref price d = Inr (rid, d'') \<longleftrightarrow>
     \<bar>price\<bar> \<le> 9999999999 \<and> length ref \<le> 20 \<and> ref \<notin> set (booking_references d) \<and>
     pid \<in> set (map p_passenger_id (Passengers d)) \<and>
     fid \<in> set (map f_flight_id (Flights d)) \<and>
     (\<forall>s. sid = Some s \<longrightarrow> s \<in> set (map s_seat_id (Seats d))) \<and>
     rid = auto_increment (map r_reservation_id (Reservations d)) \<and>
     d'' = d\<lparr>Reservations := Reservations d @
       [\<lparr>r_reservation_id = rid, r_passenger_id = pid, r_flight_id = fid, r_seat_id = sid,
         r_booking_reference = ref, r_ticket_price = price, r_status = Confirmed,
         r_payment_status = Paid\<rparr>]\<rparr>"
  unfolding insert_reservation_def booking_references_def Let_def
  by (cases sid) auto

lemma create_reservation_unfold:
  "create_reservation d rnd pos pid fid sid price = Some (res, d', pos') \<longleftrightarrow>
     (\<exists>ref. generate_booking_reference d rnd pos = Some (ref, pos') \<and>
        (case insert_reservation pid fid sid ref price d of
           Inl e \<Rightarrow> res = None \<and> d' = d
         | Inr (rid, d'') \<Rightarrow> res = Some ref \<and> d' = d''))"
proof (cases "generate_booking_reference d rnd pos")
  case None
  then show ?thesis by (simp add: create_reservation_def)
next
  case (Some y)
  obtain ref p where y: "y = (ref, p)" by (cases y)
  show ?thesis
  proof (cases "insert_reservation pid fid sid ref price d")
    case (Inl e)
    with Some y show ?thesis
      by (auto simp: create_reservation_def execute_update_def)
  next
    case (Inr z)
    obtain rid d'' where z: "z = (rid, d'')" by (cases z)
    from Inr z have "rid \<noteq> 0"
      by (simp add: insert_reservation_Inr auto_increment_def)
    with Some y Inr z show ?thesis
      by (auto simp: create_reservation_def execute_update_def)
  qed
qed

lemma create_reservation_success:
  assumes "create_reservation d rnd pos pid fid sid price = Some (Some ref, d', pos')"
  shows "generate_booking_reference d rnd pos = Some (ref, pos')"
    and "insert_reservation pid fid sid ref price d =
           Inr (auto_increment (map r_reservation_id (Reservations d)), d')"
proof -
  from assms obtain ref' where g: "generate_booking_reference d rnd pos = Some (ref', pos')"
    and c: "case insert_reservation pid fid sid ref' price d of
           Inl e \<Rightarrow> Some ref = None \<and> d' = d
         | Inr (rid, d'') \<Rightarrow> Some ref = Some ref' \<and> d' = d''"
    unfolding create_reservation_unfold by blast
  have "\<exists>rid. insert_reservation pid fid sid ref' price d = Inr (rid, d') \<and> ref' = ref"
  proof (cases "insert_reservation pid fid sid ref' price d")
    case (Inl e)
    with c show ?thesis by simp
  next
    case (Inr z)
    obtain rid d'' where "z = (rid, d'')" by (cases z)
    with Inr c show ?thesis by simp
  qed
  then obtain rid where i: "insert_reservation pid fid sid ref' price d = Inr (rid, d')"
    and "ref' = ref" by blast
  with g show "generate_booking_reference d rnd pos = Some (ref, pos')" by simp
  from i \<open>ref' = ref\<close> show "insert_reservation pid fid sid ref price d =
           Inr (auto_increment (map r_reservation_id (Reservations d)), d')"
    by (simp add: insert_reservation_Inr)
qed

lemma alphabet_upper_or_digit: "\<forall>c \<in> set alphabet. upper_or_digit c"
  by code_simp

lemma cancel_reservation_references:
  "cancel_reservation d x = Inr d' \<Longrightarrow> booking_references d' = booking_references d"
  by (auto simp: cancel_reservation_def execute_update_def update_cancel_def
      booking_references_def)


text \<open>
  Claim C3. A reference returned by \<^verbatim>\<open>generate_booking_reference\<close> has eight characters, each an
  uppercase letter or a digit, and is not the reference of any reservation of the store.
  A successful \<^verbatim>\<open>create_reservation\<close> appends exactly that reference to those of the store,
  and \<^verbatim>\<open>cancel_reservation\<close> keeps them, so that the references of the store stay pairwise
  distinct: two successful bookings never carry the same reference.
\<close>

theorem booking_reference_format_and_uniqueness:
  "(generate_booking_reference d rnd pos = Some (ref, pos') \<longrightarrow>
      length ref = 8 \<and> (\<forall>c \<in> set ref. upper_or_digit c) \<and>
      ref \<notin> set (booking_references d)) \<and>
   (create_reservation d rnd pos pid fid sid price = Some (Some ref, d', pos') \<longrightarrow>
      length ref = 8 \<and> (\<forall>c \<in> set ref. upper_or_digit c) \<and>
      ref \<notin> set (booking_references d) \<and>
      booking_references d' = booking_references d @ [ref] \<and>
      (distinct (booking_references d) \<longrightarrow> distinct (booking_references d'))) \<and>
   (cancel_reservation d x = Inr d' \<longrightarrow> booking_references d' = booking_references d)"
proof -
  have gen: "length ref = 8 \<and> (\<forall>c \<in> set ref. upper_or_digit c) \<and>
      ref \<notin> set (booking_references d)"
    if "generate_booking_reference d rnd pos = Some (ref, pos')" for ref pos'
  proof -
    from generate_Some_least [OF that] obtain k where
      "choices rnd (pos + 8 * k) 8 \<notin> set (booking_references d)"
      "ref = choices rnd (pos + 8 * k) 8" by auto
    then show ?thesis
      using set_choices [of rnd "pos + 8 * k" 8] alphabet_upper_or_digit
      by (auto simp: length_choices)
  qed
  have book: "length ref = 8 \<and> (\<forall>c \<in> set ref. upper_or_digit c) \<and>
      ref \<notin> set (booking_references d) \<and>
      booking_references d' = booking_references d @ [ref] \<and>
      (distinct (booking_references d) \<longrightarrow> distinct (booking_references d'))"
    if "create_reservation d rnd pos pid fid sid price = Some (Some ref, d', pos')"
  proof -
    note s = create_reservation_success [OF that]
    from s(2) have "booking_references d' = booking_references d @ [ref]"
      by (auto simp: insert_reservation_Inr booking_references_def)
    with gen [OF s(1)] show ?thesis by simp
  qed
  from gen book cancel_reservation_references show ?thesis by blast
qed

theorem booking_reference_format_and_uniqueness_witness:
  "generate_booking_reference booked_db count_up 8 = Some (''IJKLMNOP'', 16) \<and>
   create_reservation booked_db count_up 8 1 1 (Some 2) 35000 =
     Some (Some ''IJKLMNOP'', double_booked_db, 16) \<and>
   cancel_reservation booked_db ''ABCDEFGH'' = Inr booked_cancelled_db \<and>
   length ''IJKLMNOP'' = 8 \<and> list_all upper_or_digit ''IJKLMNOP'' \<and>
   ''IJKLMNOP'' \<notin> set (booking_references booked_db) \<and>
   booking_references double_booked_db = booking_references booked_db @ [''IJKLMNOP''] \<and>
   distinct (booking_references booked_db) \<and> distinct (booking_references double_booked_db) \<and>
   booking_references booked_cancelled_db = booking_references booked_db"
proof -
  have g: "generate_booking_reference booked_db count_up 8 = Some (''IJKLMNOP'', 16)"
    by code_simp
  have c: "create_reservation booked_db count_up 8 1 1 (Some 2) 35000 =
     Some (Some ''IJKLMNOP'', double_booked_db, 16)"
    by code_simp
  have d: "distinct (booking_references booked_db)"
    by (simp add: booking_references_def booked_db_def)
  have x: "cancel_reservation booked_db ''ABCDEFGH'' = Inr booked_cancelled_db"
    by code_simp
  from booking_reference_format_and_uniqueness
    [of booked_db count_up 8 "''IJKLMNOP''" 16 1 1 "Some 2" 35000 double_booked_db]
    booking_reference_format_and_uniqueness
    [of booked_db count_up 8 "''IJKLMNOP''" 16 1 1 "Some 2" 35000 booked_cancelled_db
      "''ABCDEFGH''"] g c d x
  show ?thesis by (simp add: list_all_iff)
qed


subsection \<open>No seat check in \<^verbatim>\<open>create_reservation\<close>\<close>

lemma held_confirmed_iff:
  "Some sid \<in> set [r_seat_id r. r \<leftarrow> rs,
       r_flight_id r = fid \<and> r_status r = Confirmed \<and> r_seat_id r \<noteq> None] \<longleftrightarrow>
   [r \<leftarrow> rs. r_flight_id r = fid \<and> r_seat_id r = Some sid \<and> r_status r = Confirmed] \<noteq> []"
  by (induction rs) auto

lemma set_get_available_seats:
  "set (get_available_seats d fid) =
     {(s_seat_id s, s_seat_number s, s_seat_class s) | s.
        s \<in> set (seat_catalog d fid) \<and> confirmed_reservations d fid (s_seat_id s) = []}"
proof -
  let ?A = "[s. s \<leftarrow> Seats d, f \<leftarrow> Flights d,
             s_aircraft_id s = f_aircraft_id f \<and> f_flight_id f = fid \<and>
             Some (s_seat_id s) \<notin> set
               [r_seat_id r. r \<leftarrow> Reservations d,
                  r_flight_id r = fid \<and> r_status r = Confirmed \<and> r_seat_id r \<noteq> None]]"
  have mem: "s \<in> set ?A \<longleftrightarrow>
      s \<in> set (seat_catalog d fid) \<and> confirmed_reservations d fid (s_seat_id s) = []" for s
    unfolding held_confirmed_iff seat_catalog_def confirmed_reservations_def by auto
  have "set (get_available_seats d fid) =
      (\<lambda>s. (s_seat_id s, s_seat_number s, s_seat_class s)) ` set ?A"
    by (simp only: get_available_seats_def execute_query_def select_available_seats_def
        sum.case set_map set_sort)
  also have "\<dots> = {(s_seat_id s, s_seat_number s, s_seat_class s) | s. s \<in> set ?A}"
    by blast
  finally show ?thesis by (simp only: mem)
qed

lemma confirmed_reservations_insert:
  assumes "insert_reservation pid fid (Some sid) ref price d = Inr (rid, d')"
  shows "confirmed_reservations d' fid sid =
     confirmed_reservations d fid sid @
       [\<lparr>r_reservation_id = rid, r_passenger_id = pid, r_flight_id = fid, r_seat_id = Some sid,
         r_booking_reference = ref, r_ticket_price = price, r_status = Confirmed,
         r_payment_status = Paid\<rparr>]"
  using assms by (auto simp: insert_reservation_Inr confirmed_reservations_def)

text \<open>
  Claim C1 as stated fails: \<^verbatim>\<open>create_reservation\<close> does not look at the seat, and the table
  has no uniqueness constraint over flight and seat. Booking seat \<^verbatim>\<open>1B\<close> of flight 1 a second
  time succeeds and leaves two confirmed reservations for it.
\<close>

theorem double_booking_counterexample:
  "length (live_reservations booked_db 1 2) = 1 \<and>
   create_reservation booked_db count_up 8 1 1 (Some 2) 35000 =
     Some (Some ''IJKLMNOP'', double_booked_db, 16) \<and>
   length (live_reservations double_booked_db 1 2) = 2"
  by code_simp

text \<open>
  Claim C1, amended. A successful \<^verbatim>\<open>create_reservation\<close> for a seat adds one confirmed
  reservation for that flight and seat, whether or not the seat was held. The only guard
  is the caller's: when the seat is among \<^verbatim>\<open>get_available_seats\<close> of the flight before the
  call (the booking page offers no other seat), exactly one confirmed reservation holds it
  afterwards.
\<close>

theorem create_reservation_no_seat_check:
  assumes "create_reservation d rnd pos pid fid (Some sid) price = Some (Some ref, d', pos')"
  shows "length (confirmed_reservations d' fid sid) =
           Suc (length (confirmed_reservations d fid sid)) \<and>
         (sid \<in> fst ` set (get_available_seats d fid) \<longrightarrow>
            length (confirmed_reservations d' fid sid) = 1)"
proof -
  from create_reservation_success(2) [OF assms]
  have grow: "length (confirmed_reservations d' fid sid) =
           Suc (length (confirmed_reservations d fid sid))"
    by (simp add: confirmed_reservations_insert)
  moreover have "confirmed_reservations d fid sid = []"
    if "sid \<in> fst ` set (get_available_seats d fid)"
    using that unfolding set_get_available_seats by auto
  ultimately show ?thesis by simp
qed

theorem create_reservation_no_seat_check_witness:
  "create_reservation demo_db count_up 0 1 1 (Some 2) 35000 =
     Some (Some ''ABCDEFGH'', booked_db, 8) \<and>
   2 \<in> fst ` set (get_available_seats demo_db 1) \<and>
   length (confirmed_reservations demo_db 1 2) = 0 \<and>
   length (confirmed_reservations booked_db 1 2) = 1"
proof -
  have c: "create_reservation demo_db count_up 0 1 1 (Some 2) 35000 =
     Some (Some ''ABCDEFGH'', booked_db, 8)" by code_simp
  have a: "get_available_seats demo_db 1 = [(1, ''1A'', Business), (2, ''1B'', Economy)]"
    by code_simp
  have z: "length (confirmed_reservations demo_db 1 2) = 0" by code_simp
  from create_reservation_no_seat_check [OF c] a z c show ?thesis by simp
qed

subsection \<open>Availability\<close>

text \<open>
  Claim C4 as stated fails: the \<^verbatim>\<open>NOT IN\<close> subquery of \<^verbatim>\<open>get_available_seats\<close> excludes only
  the seats of confirmed reservations. A seat whose only reservation is checked in is held
  in the words of the specification and is returned as available.
\<close>

theorem available_seats_counterexample:
  "spec_held checked_in_db 1 2 \<and>
   (2, ''1B'', Economy) \<in> set (get_available_seats checked_in_db 1)"
  by code_simp

text \<open>
  Claim C4, amended. The seats that \<^verbatim>\<open>get_available_seats\<close> returns are exactly the seats of
  the aircraft of the flight for which no reservation of that flight and seat has status
  confirmed.
\<close>

theorem get_available_seats_confirmed_only:
  "set (get_available_seats d flight_id) =
     {(s_seat_id s, s_seat_number s, s_seat_class s) | s.
        s \<in> set (seat_catalog d flight_id) \<and>
        confirmed_reservations d flight_id (s_seat_id s) = []}"
  by (rule set_get_available_seats)

theorem get_available_seats_confirmed_only_witness:
  "set (get_available_seats booked_db 1) = {(1, ''1A'', Business)} \<and>
   map s_seat_id (seat_catalog booked_db 1) = [1, 2] \<and>
   confirmed_reservations booked_db 1 1 = [] \<and>
   confirmed_reservations booked_db 1 2 \<noteq> [] \<and>
   set (get_available_seats checked_in_db 1) = {(1, ''1A'', Business), (2, ''1B'', Economy)} \<and>
   confirmed_reservations checked_in_db 1 2 = []"
proof -
  have "map s_seat_id (seat_catalog booked_db 1) = [1, 2]"
    "confirmed_reservations booked_db 1 1 = []"
    "confirmed_reservations booked_db 1 2 \<noteq> []"
    "confirmed_reservations checked_in_db 1 2 = []"
    by code_simp+
  moreover have "get_available_seats booked_db 1 = [(1, ''1A'', Business)]"
    "get_available_seats checked_in_db 1 = [(1, ''1A'', Business), (2, ''1B'', Economy)]"
    by code_simp+
  ultimately show ?thesis
    using get_available_seats_confirmed_only [of booked_db 1] by simp
qed

subsection \<open>No flight status check in \<^verbatim>\<open>create_reservation\<close>\<close>

text \<open>
  Claim C5 as stated fails: \<^verbatim>\<open>create_reservation\<close> does not read the status of the flight.
  Booking on flight 2 of the example store, which has departed, succeeds and creates a
  reservation.
\<close>

theorem flight_status_counterexample:
  "map f_status [f \<leftarrow> Flights demo_db. f_flight_id f = 2] = [Departed] \<and>
   create_reservation demo_db count_up 0 1 2 (Some 3) 38000 =
     Some (Some ''ABCDEFGH'', departed_booked_db, 8) \<and>
   length (Reservations departed_booked_db) = Suc (length (Reservations demo_db))"
  by code_simp

text \<open>
  Claim C5, amended. When the flight does not exist, a call of \<^verbatim>\<open>create_reservation\<close> that
  returns, returns \<^verbatim>\<open>None\<close> and leaves the store as it was (the foreign key rejects the
  insert; no error is raised). The status of the flight is not examined: for an existing
  flight in any status, with an existing passenger, an existing seat or none, and a price
  in range, the call returns the generated reference and appends the confirmed, paid
  reservation.
\<close>

theorem create_reservation_flight_check:
  "(create_reservation d rnd pos pid fid sid price = Some (res, d', pos') \<and>
    fid \<notin> set (map f_flight_id (Flights d)) \<longrightarrow> res = None \<and> d' = d) \<and>
   (generate_booking_reference d rnd pos = Some (ref, pos') \<and>
    \<bar>price\<bar> \<le> 9999999999 \<and> pid \<in> set (map p_passenger_id (Passengers d)) \<and>
    f \<in> set (Flights d) \<and> (\<forall>s. sid = Some s \<longrightarrow> s \<in> set (map s_seat_id (Seats d))) \<longrightarrow>
    create_reservation d rnd pos pid (f_flight_id f) sid price =
      Some (Some ref,
        d\<lparr>Reservations := Reservations d @
          [\<lparr>r_reservation_id = auto_increment (map r_reservation_id (Reservations d)),
            r_passenger_id = pid, r_flight_id = f_flight_id f, r_seat_id = sid,
            r_booking_reference = ref, r_ticket_price = price, r_status = Confirmed,
            r_payment_status = Paid\<rparr>]\<rparr>, pos'))"
proof (rule conjI; rule impI)
  assume a: "create_reservation d rnd pos pid fid sid price = Some (res, d', pos') \<and>
    fid \<notin> set (map f_flight_id (Flights d))"
  then obtain ref where
    c: "case insert_reservation pid fid sid ref price d of
           Inl e \<Rightarrow> res = None \<and> d' = d
         | Inr (rid, d'') \<Rightarrow> res = Some ref \<and> d' = d''"
    unfolding create_reservation_unfold by blast
  show "res = None \<and> d' = d"
  proof (cases "insert_reservation pid fid sid ref price d")
    case (Inl e)
    with c show ?thesis by simp
  next
    case (Inr z)
    obtain rid d'' where "z = (rid, d'')" by (cases z)
    with Inr a show ?thesis by (simp add: insert_reservation_Inr)
  qed
next
  let ?rid = "auto_increment (map r_reservation_id (Reservations d))"
  let ?d' = "d\<lparr>Reservations := Reservations d @
          [\<lparr>r_reservation_id = ?rid,
            r_passenger_id = pid, r_flight_id = f_flight_id f, r_seat_id = sid,
            r_booking_reference = ref, r_ticket_price = price, r_status = Confirmed,
            r_payment_status = Paid\<rparr>]\<rparr>"
  assume a: "generate_booking_reference d rnd pos = Some (ref, pos') \<and>
    \<bar>price\<bar> \<le> 9999999999 \<and> pid \<in> set (map p_passenger_id (Passengers d)) \<and>
    f \<in> set (Flights d) \<and> (\<forall>s. sid = Some s \<longrightarrow> s \<in> set (map s_seat_id (Seats d)))"
  then have g: "generate_booking_reference d rnd pos = Some (ref, pos')" by simp
  from generate_Some_least [OF g] have "length ref = 8" "ref \<notin> set (booking_references d)"
    by (auto simp: length_choices)
  with a have "insert_reservation pid (f_flight_id f) sid ref price d = Inr (?rid, ?d')"
    unfolding insert_reservation_Inr by simp
  with g show "create_reservation d rnd pos pid (f_flight_id f) sid price =
      Some (Some ref, ?d', pos')"
    unfolding create_reservation_unfold by simp
qed

theorem create_reservation_flight_check_witness:
  "create_reservation demo_db count_up 0 1 99 (Some 2) 35000 = Some (None, demo_db, 8) \<and>
   99 \<notin> set (map f_flight_id (Flights demo_db)) \<and>
   generate_booking_reference demo_db count_up 0 = Some (''ABCDEFGH'', 8) \<and>
   map f_status [f \<leftarrow> Flights demo_db. f_flight_id f = 2] = [Departed] \<and>
   create_reservation demo_db count_up 0 1 2 (Some 3) 38000 =
     Some (Some ''ABCDEFGH'', departed_booked_db, 8)"
proof -
  let ?f = "\<lparr>f_flight_id = 2, f_flight_number = ''AA102'', f_aircraft_id = 2,
       f_origin_airport_id = 2, f_destination_airport_id = 1, f_departure_time = 3000,
       f_arrival_time = 4000, f_base_price = 38000, f_status = Departed\<rparr>"
  have c: "create_reservation demo_db count_up 0 1 99 (Some 2) 35000 = Some (None, demo_db, 8)"
    by code_simp
  have n: "99 \<notin> set (map f_flight_id (Flights demo_db))"
    by (simp add: demo_db_def demo_flights_def)
  have g: "generate_booking_reference demo_db count_up 0 = Some (''ABCDEFGH'', 8)"
    by code_simp
  have f: "?f \<in> set (Flights demo_db)"
    by (simp add: demo_db_def demo_flights_def)
  have st: "map f_status [f \<leftarrow> Flights demo_db. f_flight_id f = 2] = [Departed]"
    by (simp add: demo_db_def demo_flights_def)
  have p: "1 \<in> set (map p_passenger_id (Passengers demo_db))"
    by (simp add: demo_db_def demo_passengers_def)
  have s: "\<forall>s. Some (3::nat) = Some s \<longrightarrow> s \<in> set (map s_seat_id (Seats demo_db))"
    by (simp add: demo_db_def demo_seats_def)
  have b: "demo_db\<lparr>Reservations := Reservations demo_db @
          [\<lparr>r_reservation_id = auto_increment (map r_reservation_id (Reservations demo_db)),
            r_passenger_id = 1, r_flight_id = f_flight_id ?f, r_seat_id = Some 3,
            r_booking_reference = ''ABCDEFGH'', r_ticket_price = 38000, r_status = Confirmed,
            r_payment_status = Paid\<rparr>]\<rparr> = departed_booked_db"
    by (simp add: departed_booked_db_def demo_db_def auto_increment_def)
  from create_reservation_flight_check
    [where d = demo_db and rnd = count_up and pos = 0 and pid = 1 and sid = "Some 3"
      and price = 38000 and pos' = 8 and ref = "''ABCDEFGH''" and f = ?f]
    g f p s
  have "create_reservation demo_db count_up 0 1 (f_flight_id ?f) (Some 3) 38000 =
      Some (Some ''ABCDEFGH'', departed_booked_db, 8)"
    unfolding b by simp
  with c n g st show ?thesis by simp
qed

subsection \<open>Cancellation\<close>

lemma cancel_reservation_eq:
  "cancel_reservation d ref =
     Inr (d\<lparr>Reservations :=
           map (\<lambda>r. if r_booking_reference r = ref
                     then r\<lparr>r_status := Cancelled, r_payment_status := Refunded\<rparr> else r)
             (Reservations d)\<rparr>)"
  by (simp add: cancel_reservation_def execute_update_def update_cancel_def)

lemma confirmed_after_cancel:
  "[r \<leftarrow> map (\<lambda>r. if r_booking_reference r = ref
        then r\<lparr>r_status := Cancelled, r_payment_status := Refunded\<rparr> else r) rs.
      r_flight_id r = fid \<and> r_seat_id r = Some sid \<and> r_status r = Confirmed] =
   [r \<leftarrow> rs. (r_flight_id r = fid \<and> r_seat_id r = Some sid \<and> r_status r = Confirmed) \<and>
      r_booking_reference r \<noteq> ref]"
  by (induction rs) auto

text \<open>
  Claim C6 as stated fails: \<^verbatim>\<open>cancel_reservation\<close> never looks the reservation up and raises
  nothing. For a reference that no reservation carries, the \<^verbatim>\<open>UPDATE\<close> matches no row and the
  call returns as it does after a cancellation.
\<close>

theorem cancel_unknown_counterexample:
  "''ZZZZ9999'' \<notin> set (booking_references booked_db) \<and>
   cancel_reservation booked_db ''ZZZZ9999'' = Inr booked_db"
  by code_simp

text \<open>
  Claim C6, amended. For a booking reference that no reservation of the store carries,
  \<^verbatim>\<open>cancel_reservation\<close> returns normally and leaves the store as it was.
\<close>

theorem cancel_reservation_unknown_reference:
  assumes "ref \<notin> set (booking_references d)"
  shows "cancel_reservation d ref = Inr d"
proof -
  from assms have "map (\<lambda>r. if r_booking_reference r = ref
      then r\<lparr>r_status := Cancelled, r_payment_status := Refunded\<rparr> else r) (Reservations d) =
    Reservations d"
    by (intro map_idI) (auto simp: booking_references_def)
  then show ?thesis by (simp add: cancel_reservation_eq)
qed

theorem cancel_reservation_unknown_reference_witness:
  "''NOSUCHRF'' \<notin> set (booking_references booked_db) \<and>
   cancel_reservation booked_db ''NOSUCHRF'' = Inr booked_db"
proof -
  have h: "''NOSUCHRF'' \<notin> set (booking_references booked_db)"
    by (simp add: booking_references_def booked_db_def)
  from cancel_reservation_unknown_reference [OF h] h show ?thesis by simp
qed

text \<open>
  Claim C7 as stated fails: the \<^verbatim>\<open>UPDATE\<close> of \<^verbatim>\<open>cancel_reservation\<close> has no condition on the
  status or on the payment status. A completed reservation whose payment is pending becomes
  cancelled and refunded.
\<close>

theorem cancel_completed_counterexample:
  "map (\<lambda>r. (r_booking_reference r, r_status r, r_payment_status r)) (Reservations completed_db) =
     [(''BK2025001'', Completed, Pending)] \<and>
   cancel_reservation completed_db ''BK2025001'' = Inr completed_cancelled_db \<and>
   map (\<lambda>r. (r_booking_reference r, r_status r, r_payment_status r))
     (Reservations completed_cancelled_db) = [(''BK2025001'', Cancelled, Refunded)]"
  by code_simp

text \<open>
  Claim C7, amended. \<^verbatim>\<open>cancel_reservation\<close> returns normally; it keeps every table but
  \<^verbatim>\<open>Reservations\<close>, keeps the number and the order of the reservations, sets the status to
  cancelled and the payment status to refunded on every reservation that carries the
  reference, whatever the two were before, and changes no other reservation.
\<close>

theorem cancel_reservation_unconditional:
  "\<exists>d'. cancel_reservation d ref = Inr d' \<and>
     Airports d' = Airports d \<and> Flights d' = Flights d \<and> Passengers d' = Passengers d \<and>
     Seats d' = Seats d \<and>
     length (Reservations d') = length (Reservations d) \<and>
     (\<forall>i < length (Reservations d).
        (r_booking_reference (Reservations d ! i) = ref \<longrightarrow>
           Reservations d' ! i =
             (Reservations d ! i)\<lparr>r_status := Cancelled, r_payment_status := Refunded\<rparr>) \<and>
        (r_booking_reference (Reservations d ! i) \<noteq> ref \<longrightarrow>
           Reservations d' ! i = Reservations d ! i))"
  by (simp add: cancel_reservation_eq)

theorem cancel_reservation_unconditional_witness:
  "cancel_reservation completed_db ''BK2025001'' = Inr completed_cancelled_db \<and>
   cancel_reservation booked_db ''ABCDEFGH'' = Inr booked_cancelled_db \<and>
   length (Reservations booked_cancelled_db) = length (Reservations booked_db) \<and>
   r_booking_reference (Reservations booked_db ! 0) = ''ABCDEFGH'' \<and>
   Reservations booked_cancelled_db ! 0 =
     (Reservations booked_db ! 0)\<lparr>r_status := Cancelled, r_payment_status := Refunded\<rparr>"
proof -
  have c: "cancel_reservation completed_db ''BK2025001'' = Inr completed_cancelled_db"
    "cancel_reservation booked_db ''ABCDEFGH'' = Inr booked_cancelled_db"
    by code_simp+
  have r: "r_booking_reference (Reservations booked_db ! 0) = ''ABCDEFGH''"
    by (simp add: booked_db_def)
  from cancel_reservation_unconditional [of booked_db "''ABCDEFGH''"] c r
  show ?thesis by (auto simp: booked_db_def)
qed

text \<open>
  Claim C8 as stated fails in its last part: after the cancellation the seat of the
  reservation need not be available. The seat of a reservation may belong to another
  aircraft than the flight's (as for the sample reservation \<^verbatim>\<open>BK2025002\<close>), and another
  confirmed reservation may hold the same seat on the same flight.
\<close>

theorem cancel_seat_counterexample:
  "''BK2025002'' \<in> set (booking_references mismatched_db) \<and>
   map r_seat_id (Reservations mismatched_db) = [Some 2] \<and>
   cancel_reservation mismatched_db ''BK2025002'' = Inr mismatched_cancelled_db \<and>
   cancel_reservation mismatched_cancelled_db ''BK2025002'' = Inr mismatched_cancelled_db \<and>
   2 \<notin> fst ` set (get_available_seats mismatched_cancelled_db 2) \<and>
   ''ABCDEFGH'' \<in> set (booking_references double_booked_db) \<and>
   (case cancel_reservation double_booked_db ''ABCDEFGH'' of
      Inl e \<Rightarrow> False
    | Inr d' \<Rightarrow> cancel_reservation d' ''ABCDEFGH'' = Inr d' \<and>
        2 \<notin> fst ` set (get_available_seats d' 1))"
  by code_simp

text \<open>
  Claim C8, amended. Calling \<^verbatim>\<open>cancel_reservation\<close> twice with the same reference leaves the
  same store as calling it once, and both calls return normally. After either, the seat of
  a reservation that carried the reference is among \<^verbatim>\<open>get_available_seats\<close> of its flight,
  provided that the seat is a seat of the aircraft of that flight and that no confirmed
  reservation with another reference holds it on that flight.
\<close>

theorem cancel_reservation_idempotent:
  "\<exists>d'. cancel_reservation d ref = Inr d' \<and> cancel_reservation d' ref = Inr d' \<and>
     (\<forall>r \<in> set (Reservations d). \<forall>s \<in> set (seat_catalog d (r_flight_id r)).
        r_booking_reference r = ref \<and> r_seat_id r = Some (s_seat_id s) \<and>
        (\<forall>r' \<in> set (confirmed_reservations d (r_flight_id r) (s_seat_id s)).
           r_booking_reference r' = ref) \<longrightarrow>
        (s_seat_id s, s_seat_number s, s_seat_class s) \<in>
          set (get_available_seats d' (r_flight_id r)))"
proof -
  let ?c = "\<lambda>r. if r_booking_reference r = ref
      then r\<lparr>r_status := Cancelled, r_payment_status := Refunded\<rparr> else r"
  let ?d' = "d\<lparr>Reservations := map ?c (Reservations d)\<rparr>"
  have 1: "cancel_reservation d ref = Inr ?d'" by (rule cancel_reservation_eq)
  have "map ?c (map ?c (Reservations d)) = map ?c (Reservations d)"
    by (induction "Reservations d") auto
  then have 2: "cancel_reservation ?d' ref = Inr ?d'"
    by (simp add: cancel_reservation_eq)
  have cat: "seat_catalog ?d' fid = seat_catalog d fid" for fid
    by (simp add: seat_catalog_def)
  have conf: "confirmed_reservations ?d' fid sid =
      [r \<leftarrow> confirmed_reservations d fid sid. r_booking_reference r \<noteq> ref]" for fid sid
    by (simp add: confirmed_reservations_def confirmed_after_cancel)
  have 3: "(s_seat_id s, s_seat_number s, s_seat_class s) \<in>
          set (get_available_seats ?d' (r_flight_id r))"
    if "s \<in> set (seat_catalog d (r_flight_id r))"
      "\<forall>r' \<in> set (confirmed_reservations d (r_flight_id r) (s_seat_id s)).
           r_booking_reference r' = ref" for r s
    using that unfolding set_get_available_seats cat conf
    by (auto simp: filter_empty_conv)
  from 1 2 3 show ?thesis by blast
qed

theorem cancel_reservation_idempotent_witness:
  "cancel_reservation booked_db ''ABCDEFGH'' = Inr booked_cancelled_db \<and>
   cancel_reservation booked_cancelled_db ''ABCDEFGH'' = Inr booked_cancelled_db \<and>
   (2, ''1B'', Economy) \<notin> set (get_available_seats booked_db 1) \<and>
   (2, ''1B'', Economy) \<in> set (get_available_seats booked_cancelled_db 1)"
proof -
  let ?r = "\<lparr>r_reservation_id = 1, r_passenger_id = 1, r_flight_id = 1, r_seat_id = Some 2,
       r_booking_reference = ''ABCDEFGH'', r_ticket_price = 35000, r_status = Confirmed,
       r_payment_status = Paid\<rparr>"
  let ?s = "\<lparr>s_seat_id = 2, s_aircraft_id = 1, s_seat_number = ''1B'', s_seat_class = Economy\<rparr>"
  have c: "cancel_reservation booked_db ''ABCDEFGH'' = Inr booked_cancelled_db"
    by code_simp
  have r: "?r \<in> set (Reservations booked_db)"
    by (simp add: booked_db_def)
  have cat: "seat_catalog booked_db 1 =
      [\<lparr>s_seat_id = 1, s_aircraft_id = 1, s_seat_number = ''1A'', s_seat_class = Business\<rparr>, ?s]"
    by code_simp
  have conf: "confirmed_reservations booked_db 1 2 = [?r]"
    by code_simp
  have before: "get_available_seats booked_db 1 = [(1, ''1A'', Business)]"
    by code_simp
  from cancel_reservation_idempotent [of booked_db "''ABCDEFGH''"] obtain d' where
    1: "cancel_reservation booked_db ''ABCDEFGH'' = Inr d'" and
    2: "cancel_reservation d' ''ABCDEFGH'' = Inr d'" and
    3: "\<forall>r \<in> set (Reservations booked_db). \<forall>s \<in> set (seat_catalog booked_db (r_flight_id r)).
        r_booking_reference r = ''ABCDEFGH'' \<and> r_seat_id r = Some (s_seat_id s) \<and>
        (\<forall>r' \<in> set (confirmed_reservations booked_db (r_flight_id r) (s_seat_id s)).
           r_booking_reference r' = ''ABCDEFGH'') \<longrightarrow>
        (s_seat_id s, s_seat_number s, s_seat_class s) \<in>
          set (get_available_seats d' (r_flight_id r))"
    by blast
  from 1 c have d': "d' = booked_cancelled_db" by simp
  have s: "?s \<in> set (seat_catalog booked_db (r_flight_id ?r))"
    by code_simp
  have prem: "r_booking_reference ?r = ''ABCDEFGH'' \<and> r_seat_id ?r = Some (s_seat_id ?s) \<and>
      (\<forall>r' \<in> set (confirmed_reservations booked_db (r_flight_id ?r) (s_seat_id ?s)).
         r_booking_reference r' = ''ABCDEFGH'')"
    by code_simp
  from 3 r s prem
  have "(s_seat_id ?s, s_seat_number ?s, s_seat_class ?s) \<in>
      set (get_available_seats d' (r_flight_id ?r))"
    by blast
  then have "(2, ''1B'', Economy) \<in> set (get_available_seats d' 1)"
    by simp
  with 2 c before show ?thesis unfolding d' by simp
qed

subsection \<open>Looking up a booking\<close>

lemma in_select_reservation:
  "(r, p, f, orig, dest, s) \<in> set (execute_query (select_reservation ref) d) \<longleftrightarrow>
     r \<in> set (Reservations d) \<and> p \<in> set (Passengers d) \<and>
     r_passenger_id r = p_passenger_id p \<and> f \<in> set (Flights d) \<and>
     r_flight_id r = f_flight_id f \<and> orig \<in> set (Airports d) \<and>
     f_origin_airport_id f = o_airport_id orig \<and> dest \<in> set (Airports d) \<and>
     f_destination_airport_id f = o_airport_id dest \<and> s \<in> set (left_join_seats d r) \<and>
     r_booking_reference r = ref"
  by (auto simp: execute_query_def select_reservation_def)

lemma left_join_seats_cases:
  "s \<in> set (left_join_seats d r) \<longleftrightarrow>
     (case s of
        None \<Rightarrow> (\<forall>x \<in> set (Seats d). r_seat_id r \<noteq> Some (s_seat_id x))
      | Some x \<Rightarrow> x \<in> set (Seats d) \<and> r_seat_id r = Some (s_seat_id x))"
proof -
  let ?ss = "[s. s \<leftarrow> Seats d, r_seat_id r = Some (s_seat_id s)]"
  have set: "set ?ss = {x \<in> set (Seats d). r_seat_id r = Some (s_seat_id x)}" by auto
  show ?thesis
  proof (cases ?ss)
    case Nil
    with set have none: "\<forall>x \<in> set (Seats d). r_seat_id r \<noteq> Some (s_seat_id x)" by auto
    have "left_join_seats d r = [None]"
      unfolding left_join_seats_def Nil by simp
    with none show ?thesis by (cases s) auto
  next
    case (Cons a as)
    then have "left_join_seats d r = map Some ?ss"
      unfolding left_join_seats_def by simp
    then have "set (left_join_seats d r) = Some ` set ?ss" by simp
    with set Cons show ?thesis
      by (cases s) (auto simp del: set_concat)
  qed
qed

text \<open>
  Claim C9. After a successful \<^verbatim>\<open>create_reservation\<close>, on a store whose flights refer to
  existing airports, \<^verbatim>\<open>get_reservation_by_reference\<close> with the returned reference finds a row,
  and its reservation carries the reference, passenger, flight, seat and price that were
  given, with status confirmed and payment status paid; the joined passenger, flight and
  seat are the ones given.
\<close>

theorem lookup_after_booking:
  assumes "create_reservation d rnd pos pid fid sid price = Some (Some ref, d', pos')"
    and "flights_reference_airports d"
  shows "\<exists>r p f orig dest s.
           get_reservation_by_reference d' ref = Some (r, p, f, orig, dest, s) \<and>
           r_booking_reference r = ref \<and> r_passenger_id r = pid \<and> r_flight_id r = fid \<and>
           r_seat_id r = sid \<and> r_ticket_price r = price \<and> r_status r = Confirmed \<and>
           r_payment_status r = Paid \<and> p_passenger_id p = pid \<and> f_flight_id f = fid \<and>
           map_option s_seat_id s = sid"
proof -
  let ?rid = "auto_increment (map r_reservation_id (Reservations d))"
  let ?new = "\<lparr>r_reservation_id = ?rid, r_passenger_id = pid, r_flight_id = fid,
      r_seat_id = sid, r_booking_reference = ref, r_ticket_price = price,
      r_status = Confirmed, r_payment_status = Paid\<rparr>"
  from create_reservation_success(2) [OF assms(1)]
  have ins: "ref \<notin> set (booking_references d)"
    "pid \<in> set (map p_passenger_id (Passengers d))"
    "fid \<in> set (map f_flight_id (Flights d))"
    "\<forall>x. sid = Some x \<longrightarrow> x \<in> set (map s_seat_id (Seats d))"
    and d': "d' = d\<lparr>Reservations := Reservations d @ [?new]\<rparr>"
    by (simp_all add: insert_reservation_Inr)
  have tables: "Passengers d' = Passengers d" "Flights d' = Flights d"
    "Airports d' = Airports d" "Seats d' = Seats d"
    "Reservations d' = Reservations d @ [?new]"
    by (simp_all add: d')
  have only: "r = ?new \<and> map_option s_seat_id s = sid"
    if "(r, p, f, orig, dest, s) \<in> set (execute_query (select_reservation ref) d')"
    for r p f orig dest s
  proof -
    from that have r: "r \<in> set (Reservations d @ [?new])" "r_booking_reference r = ref"
      and s: "s \<in> set (left_join_seats d' r)"
      by (simp_all add: in_select_reservation tables)
    from r ins(1) have new: "r = ?new" by (auto simp: booking_references_def)
    from s ins(4) have "map_option s_seat_id s = sid"
      unfolding left_join_seats_cases new tables
      by (cases s; cases sid) auto
    with new show ?thesis by simp
  qed
  have "\<exists>row. row \<in> set (execute_query (select_reservation ref) d')"
  proof -
    from ins(2) obtain p where p: "p \<in> set (Passengers d)" "p_passenger_id p = pid" by auto
    from ins(3) obtain f where f: "f \<in> set (Flights d)" "f_flight_id f = fid" by auto
    from assms(2) f(1) obtain orig dest where
      a: "orig \<in> set (Airports d)" "f_origin_airport_id f = o_airport_id orig"
        "dest \<in> set (Airports d)" "f_destination_airport_id f = o_airport_id dest"
      unfolding flights_reference_airports_def by auto
    have "left_join_seats d' ?new \<noteq> []"
      unfolding left_join_seats_def by (simp split: list.splits)
    then obtain s where "s \<in> set (left_join_seats d' ?new)"
      by (cases "left_join_seats d' ?new") auto
    with p f a have "(?new, p, f, orig, dest, s) \<in> set (execute_query (select_reservation ref) d')"
      unfolding in_select_reservation tables by simp
    then show ?thesis by blast
  qed
  then obtain row rows where rows: "execute_query (select_reservation ref) d' = row # rows"
    by (cases "execute_query (select_reservation ref) d'") auto
  obtain r p f orig dest s where row: "row = (r, p, f, orig, dest, s)"
    by (cases row)
  from rows row have mem: "(r, p, f, orig, dest, s) \<in> set (execute_query (select_reservation ref) d')"
    by simp
  from only [OF mem] have r: "r = ?new" "map_option s_seat_id s = sid" by simp_all
  from mem have "r_passenger_id r = p_passenger_id p" "r_flight_id r = f_flight_id f"
    by (simp_all add: in_select_reservation)
  with r have "p_passenger_id p = pid" "f_flight_id f = fid" by simp_all
  moreover from rows row have "get_reservation_by_reference d' ref = Some (r, p, f, orig, dest, s)"
    by (simp add: get_reservation_by_reference_def)
  ultimately show ?thesis using r by auto
qed

theorem lookup_after_booking_witness:
  "create_reservation demo_db count_up 0 1 1 (Some 2) 35000 =
     Some (Some ''ABCDEFGH'', booked_db, 8) \<and>
   flights_reference_airports demo_db \<and>
   (\<exists>r p f orig dest s.
      get_reservation_by_reference booked_db ''ABCDEFGH'' = Some (r, p, f, orig, dest, s) \<and>
      r_booking_reference r = ''ABCDEFGH'' \<and> r_passenger_id r = 1 \<and> r_flight_id r = 1 \<and>
      r_seat_id r = Some 2 \<and> r_ticket_price r = 35000 \<and> r_status r = Confirmed \<and>
      r_payment_status r = Paid \<and> p_passenger_id p = 1 \<and> f_flight_id f = 1 \<and>
      map_option s_seat_id s = Some 2)"
proof -
  have c: "create_reservation demo_db count_up 0 1 1 (Some 2) 35000 =
     Some (Some ''ABCDEFGH'', booked_db, 8)"
    by code_simp
  have fk: "flights_reference_airports demo_db"
    by code_simp
  from lookup_after_booking [OF c fk] c fk show ?thesis by blast
qed

end
